theory Spec2Isabelle
  imports Complex_Main
begin

section \<open>Sparse covariance estimation: the notebook's solve loop\<close>

text \<open>
  The development embeds the second code cell of
  \<^verbatim>\<open>examples/notebooks/WWW/sparse_covariance_est.ipynb\<close>: for each budget
  \<^verbatim>\<open>alpha\<close> in \<^verbatim>\<open>alphas\<close> a cvxpy problem is assembled, solved, the
  inverse of the solution is computed, the solution is thresholded and appended to the
  list \<^verbatim>\<open>Ss\<close>.

  Numeric arrays are lists of rows. Entries are real numbers: the IEEE doubles of numpy
  are abstracted to the reals they denote. Comparisons of doubles are comparisons of
  these reals; where the numeric library rounds (in the factorisation behind the matrix
  inverse) the rounding is written out.
\<close>

subsection \<open>Arrays\<close>

type_synonym matrix = "real list list"

definition is_matrix :: "nat \<Rightarrow> nat \<Rightarrow> 'a list list \<Rightarrow> bool" where
  "is_matrix r c M = (length M = r \<and> list_all (\<lambda>row. length row = c) M)"

text \<open>\<^verbatim>\<open>abs(S)\<close>: the elementwise absolute value.\<close>

definition np_abs :: "matrix \<Rightarrow> matrix" where
  "np_abs S = map (map abs) S"

text \<open>\<^verbatim>\<open>A <= t\<close> for an array and a scalar: the elementwise comparison, a boolean mask.\<close>

definition np_le :: "matrix \<Rightarrow> real \<Rightarrow> bool list list" where
  "np_le A t = map (map (\<lambda>x. x \<le> t)) A"

text \<open>\<^verbatim>\<open>S[mask] = v\<close>: every entry whose mask bit is set is overwritten with
  \<open>v\<close>, the others keep their value. The mask has the shape of \<open>S\<close>.\<close>

definition mask_assign :: "matrix \<Rightarrow> bool list list \<Rightarrow> real \<Rightarrow> matrix" where
  "mask_assign S msk v =
     map (\<lambda>(row, mrow). map (\<lambda>(x, b). if b then v else x) (zip row mrow)) (zip S msk)"

subsection \<open>Thresholding\<close>

text \<open>The literal \<^verbatim>\<open>1e-4\<close> is the double nearest to \<open>10\<^sup>-\<^sup>4\<close>, which is
  \<open>7378697629483821 / 2\<^sup>6\<^sup>6\<close>, a little above \<open>1 / 10000\<close>.\<close>

definition tol :: real where
  "tol = 7378697629483821 / 2 ^ 66"

text \<open>\<^verbatim>\<open>S[abs(S) <= 1e-4] = 0\<close>\<close>

definition threshold :: "matrix \<Rightarrow> matrix" where
  "threshold S = mask_assign S (np_le (np_abs S) tol) 0"

text \<open>The same operation entry by entry.\<close>

definition threshold_entry :: "real \<Rightarrow> real" where
  "threshold_entry x = (if \<bar>x\<bar> \<le> 7378697629483821 / 2 ^ 66 then 0 else x)"


subsection \<open>The symbolic program handed to the solver\<close>

text \<open>
  \<^verbatim>\<open>cvx.Variable(shape=(n,n), PSD=True)\<close>: a matrix variable with its shape and the
  attribute that constrains it to the positive-semidefinite cone (which, in the modelling
  library, includes symmetry).
\<close>

record variable =
  shape :: "nat \<times> nat"
  PSD :: bool

text \<open>
  Expressions over the variable, as the overloaded operators of the modelling library
  build them: matrix-valued ones (the variable, a constant array, the product \<^verbatim>\<open>S*Y\<close>,
  \<^verbatim>\<open>cvx.abs\<close>) and scalar-valued ones (a number, an entry \<^verbatim>\<open>E[i, j]\<close>,
  \<^verbatim>\<open>cvx.log_det\<close>, \<^verbatim>\<open>cvx.sum\<close>, \<open>+\<close> and \<open>-\<close>).
\<close>

datatype mexpr =
    Var variable
  | Constant matrix
  | MatMul mexpr mexpr
  | AbsE mexpr

datatype sexpr =
    Num real
  | Index mexpr nat nat
  | LogDet mexpr
  | SumE mexpr
  | AddE sexpr sexpr
  | SubE sexpr sexpr

datatype objective = Maximize sexpr | Minimize sexpr

datatype constr = Le sexpr sexpr

record problem =
  objective :: objective
  constraints :: "constr list"

text \<open>Python's builtin \<^verbatim>\<open>sum\<close>: it starts from the integer 0 and adds the items from
  the left, so that the first addition is \<^verbatim>\<open>0 + item\<close>.\<close>

definition py_sum :: "sexpr list \<Rightarrow> sexpr" where
  "py_sum es = foldl AddE (Num 0) es"

text \<open>\<^verbatim>\<open>sum([(S*Y)[i, i] for i in range(n)])\<close>\<close>

definition diag_sum :: "nat \<Rightarrow> mexpr \<Rightarrow> matrix \<Rightarrow> sexpr" where
  "diag_sum n S Y = py_sum (map (\<lambda>i. Index (MatMul S (Constant Y)) i i) [0..<n])"

text \<open>The body of the loop up to \<^verbatim>\<open>prob = cvx.Problem(obj, constraints)\<close>.\<close>

definition build_problem :: "nat \<Rightarrow> matrix \<Rightarrow> real \<Rightarrow> problem" where
  "build_problem n Y alpha =
     (let S = Var \<lparr>shape = (n, n), PSD = True\<rparr>;
          obj = Maximize (SubE (LogDet S) (diag_sum n S Y));
          constraints = [Le (SumE (AbsE S)) (Num alpha)]
      in \<lparr>objective = obj, constraints = constraints\<rparr>)"

subsection \<open>What the expressions denote\<close>

text \<open>
  The operators and atoms are those of the modelling library; the notebook only combines
  them. Their meaning is given as the value of an expression at a value \<open>V\<close> of the
  variable: the matrix product, the entry at an index, the entrywise absolute value, the
  sum of all entries, sum and difference. Where the library refuses an expression
  (operands of a product whose shapes do not agree, an index out of range, a value of the
  wrong shape) the value is \<open>None\<close>. The value of the atom \<^verbatim>\<open>log_det\<close> on a
  matrix, the logarithm of its determinant, is the parameter \<open>ld\<close> of the evaluation.
\<close>

definition ncols :: "'a list list \<Rightarrow> nat" where
  "ncols B = (case B of [] \<Rightarrow> 0 | row # _ \<Rightarrow> length row)"

definition matmul :: "matrix \<Rightarrow> matrix \<Rightarrow> matrix" where
  "matmul A B =
     map (\<lambda>i. map (\<lambda>j. \<Sum>k\<leftarrow>[0..<length B]. A ! i ! k * B ! k ! j) [0..<ncols B])
         [0..<length A]"

fun mval :: "matrix \<Rightarrow> mexpr \<Rightarrow> matrix option" where
  "mval V (Var v) = (if is_matrix (fst (shape v)) (snd (shape v)) V then Some V else None)"
| "mval V (Constant M) = Some M"
| "mval V (MatMul a b) =
     (case mval V a of
        None \<Rightarrow> None
      | Some A \<Rightarrow>
          (case mval V b of
             None \<Rightarrow> None
           | Some B \<Rightarrow>
               if is_matrix (length A) (length B) A \<and> is_matrix (length B) (ncols B) B
               then Some (matmul A B) else None))"
| "mval V (AbsE a) = map_option np_abs (mval V a)"

fun sval :: "(matrix \<Rightarrow> real) \<Rightarrow> matrix \<Rightarrow> sexpr \<Rightarrow> real option" where
  "sval ld V (Num c) = Some c"
| "sval ld V (Index e i j) =
     (case mval V e of
        None \<Rightarrow> None
      | Some M \<Rightarrow> if i < length M \<and> j < length (M ! i) then Some (M ! i ! j) else None)"
| "sval ld V (LogDet e) = map_option ld (mval V e)"
| "sval ld V (SumE e) = map_option (\<lambda>M. sum_list (map sum_list M)) (mval V e)"
| "sval ld V (AddE a b) =
     (case sval ld V a of
        None \<Rightarrow> None
      | Some x \<Rightarrow> (case sval ld V b of None \<Rightarrow> None | Some y \<Rightarrow> Some (x + y)))"
| "sval ld V (SubE a b) =
     (case sval ld V a of
        None \<Rightarrow> None
      | Some x \<Rightarrow> (case sval ld V b of None \<Rightarrow> None | Some y \<Rightarrow> Some (x - y)))"

text \<open>A constraint \<^verbatim>\<open>lhs <= rhs\<close> holds at \<open>V\<close> when both sides have a value and the
  values compare.\<close>

fun holds :: "(matrix \<Rightarrow> real) \<Rightarrow> matrix \<Rightarrow> constr \<Rightarrow> bool" where
  "holds ld V (Le a b) =
     (case sval ld V a of
        None \<Rightarrow> False
      | Some x \<Rightarrow> (case sval ld V b of None \<Rightarrow> False | Some y \<Rightarrow> x \<le> y))"

text \<open>The variables an expression, an objective, a constraint and a problem mention.\<close>

fun mvars :: "mexpr \<Rightarrow> variable set" where
  "mvars (Var v) = {v}"
| "mvars (Constant M) = {}"
| "mvars (MatMul a b) = mvars a \<union> mvars b"
| "mvars (AbsE a) = mvars a"

fun svars :: "sexpr \<Rightarrow> variable set" where
  "svars (Num c) = {}"
| "svars (Index e i j) = mvars e"
| "svars (LogDet e) = mvars e"
| "svars (SumE e) = mvars e"
| "svars (AddE a b) = svars a \<union> svars b"
| "svars (SubE a b) = svars a \<union> svars b"

fun ovars :: "objective \<Rightarrow> variable set" where
  "ovars (Maximize e) = svars e"
| "ovars (Minimize e) = svars e"

fun cvars :: "constr \<Rightarrow> variable set" where
  "cvars (Le a b) = svars a \<union> svars b"

definition variables :: "problem \<Rightarrow> variable set" where
  "variables p = ovars (objective p) \<union> \<Union> (set (map cvars (constraints p)))"

text \<open>The trace of a square matrix, and the trace of a product written out.\<close>

definition tr :: "matrix \<Rightarrow> real" where
  "tr M = (\<Sum>i<length M. M ! i ! i)"

definition tr_prod :: "nat \<Rightarrow> matrix \<Rightarrow> matrix \<Rightarrow> real" where
  "tr_prod n S Y = (\<Sum>i<n. \<Sum>j<n. S ! i ! j * Y ! j ! i)"

text \<open>The entrywise 1-norm \<open>\<Sum>\<^sub>i\<^sub>j |S\<^sub>i\<^sub>j|\<close> of an \<open>n \<times> n\<close> matrix.\<close>

definition norm1 :: "nat \<Rightarrow> matrix \<Rightarrow> real" where
  "norm1 n S = (\<Sum>i<n. \<Sum>j<n. \<bar>S ! i ! j\<bar>)"

subsection \<open>The matrix inverse\<close>

text \<open>
  The determinant in exact arithmetic (the Laplace expansion along the first row), to say
  what a singular and what an invertible matrix is.
\<close>

definition remove_nth :: "nat \<Rightarrow> 'a list \<Rightarrow> 'a list" where
  "remove_nth k xs = take k xs @ drop (Suc k) xs"

fun det :: "matrix \<Rightarrow> real" where
  "det [] = 1"
| "det (r # rs) = (\<Sum>j\<leftarrow>[0..<length r]. (- 1) ^ j * r ! j * det (map (remove_nth j) rs))"

definition minor :: "matrix \<Rightarrow> nat \<Rightarrow> nat \<Rightarrow> matrix" where
  "minor M i j = map (remove_nth j) (remove_nth i M)"

definition cofactor :: "matrix \<Rightarrow> nat \<Rightarrow> nat \<Rightarrow> real" where
  "cofactor M i j = (- 1) ^ (i + j) * det (minor M i j)"

definition square :: "matrix \<Rightarrow> bool" where
  "square M = is_matrix (length M) (length M) M"

definition invertible :: "matrix \<Rightarrow> bool" where
  "invertible M = (square M \<and> det M \<noteq> 0)"

datatype error = Exception string | LinAlgError string

text \<open>
  \<^verbatim>\<open>np.linalg.inv\<close> belongs to the numeric library, not to the notebook. In the loop
  it is a parameter: a function from an array to the exception it raises or to the array
  it returns.
\<close>

type_synonym inverse = "matrix \<Rightarrow> error + matrix"

definition returns :: "inverse \<Rightarrow> matrix \<Rightarrow> bool" where
  "returns np_inv M = (case np_inv M of Inl e \<Rightarrow> False | Inr R \<Rightarrow> True)"

text \<open>
  For concrete runs, a model of what the library does. It raises \<^verbatim>\<open>LinAlgError\<close>
  on an array that is not square, and on a square one when the LU factorisation with
  partial pivoting, carried out in doubles, meets a pivot that is exactly zero.

  \<open>fl\<close> rounds a real to the nearest double, ties to the even significand (normal
  range only: overflow and subnormal numbers are not modelled).
\<close>

definition round_even :: "real \<Rightarrow> int" where
  "round_even q =
     (let f = \<lfloor>q\<rfloor>; d = q - of_int f
      in if d < 1 / 2 then f else if 1 / 2 < d then f + 1 else if even f then f else f + 1)"

definition fl :: "real \<Rightarrow> real" where
  "fl x =
     (if x = 0 then 0
      else let u = 2 powi (\<lfloor>log 2 \<bar>x\<bar>\<rfloor> - 52) in of_int (round_even (x / u)) * u)"

text \<open>
  The factorisation, column by column: the pivot is the first entry of largest magnitude
  in the column; its row is exchanged with the top row; if the pivot is zero the
  factorisation reports a singular matrix; otherwise each row below gets its
  multiplier, the entry times the rounded reciprocal of the pivot, and is reduced by the
  multiplier times the pivot row, every operation rounded; the factorisation goes on
  with the reduced rows. (On arrays larger than \<open>2 \<times> 2\<close> the library may group the
  updates differently; the concrete runs below use \<open>1 \<times> 1\<close> and \<open>2 \<times> 2\<close> arrays.)
\<close>

fun pivot_index :: "real list \<Rightarrow> nat" where
  "pivot_index [] = 0"
| "pivot_index [x] = 0"
| "pivot_index (x # xs) = (let k = pivot_index xs in if \<bar>x\<bar> < \<bar>xs ! k\<bar> then Suc k else 0)"

definition swap_rows :: "nat \<Rightarrow> 'a list \<Rightarrow> 'a list" where
  "swap_rows k rows = (rows[0 := rows ! k])[k := rows ! 0]"

definition eliminate :: "real list \<Rightarrow> real \<Rightarrow> real list \<Rightarrow> real list" where
  "eliminate p r a =
     (let l = fl (hd a * r) in map (\<lambda>(x, y). fl (x - fl (l * y))) (zip (tl a) (tl p)))"

function lu_zero_pivot :: "matrix \<Rightarrow> bool" where
  "lu_zero_pivot A =
     (if A = [] then False
      else let B = swap_rows (pivot_index (map hd A)) A; p = hd B
           in if hd p = 0 then True
              else lu_zero_pivot (map (eliminate p (fl (1 / hd p))) (tl B)))"
  by pat_completeness auto
termination
  by (relation "measure length") (auto simp: swap_rows_def)

text \<open>
  The array returned when nothing is raised is the one the library computes from the
  factors. It is given here in exact arithmetic, as the adjugate over the determinant;
  the loop never reads it.
\<close>

definition np_linalg_inv :: inverse where
  "np_linalg_inv M =
     (if \<not> square M then Inl (LinAlgError ''Last 2 dimensions of the array must be square'')
      else if lu_zero_pivot M then Inl (LinAlgError ''Singular matrix'')
      else Inr (map (\<lambda>i. map (\<lambda>j. cofactor M j i / det M) [0..<length M]) [0..<length M]))"

subsection \<open>The solver\<close>

text \<open>
  Modelled from the spec: the status values of the solver, which belongs to the modelling
  library and is not part of the notebook (section 6: optimal, infeasible, unbounded,
  error). \<^verbatim>\<open>cvx.OPTIMAL\<close> is \<open>OPTIMAL\<close>.
\<close>

datatype status = OPTIMAL | INFEASIBLE | UNBOUNDED | SOLVER_ERROR

text \<open>
  \<^verbatim>\<open>prob.solve()\<close> is a black box: a function from the problem to the status it
  leaves in \<^verbatim>\<open>prob.status\<close> and the array it leaves in \<^verbatim>\<open>S.value\<close>. The array
  is read only after the status was found optimal.
\<close>

type_synonym solver = "problem \<Rightarrow> status \<times> matrix"

text \<open>A solver that answers every problem alike, for concrete runs.\<close>

definition const_solver :: "status \<Rightarrow> matrix \<Rightarrow> solver" where
  "const_solver s M = (\<lambda>p. (s, M))"

text \<open>
  A solver for concrete runs on the \<open>1 \<times> 1\<close> data \<open>Y = [[1]]\<close>. There the program
  is to maximise \<open>ln s - s\<close> subject to \<open>|s| \<le> \<alpha>\<close>: it has no point with a finite
  objective for \<open>\<alpha> \<le> 0\<close>, and the solution \<open>min \<alpha> 1\<close> otherwise. The bound \<open>\<alpha>\<close> is
  read off the constraint of the problem.
\<close>

definition bound_of :: "problem \<Rightarrow> real" where
  "bound_of p = (case constraints p of Le lhs (Num a) # _ \<Rightarrow> a | _ \<Rightarrow> 0)"

definition toy_solver :: solver where
  "toy_solver p =
     (let a = bound_of p in if a \<le> 0 then (INFEASIBLE, []) else (OPTIMAL, [[min a 1]]))"


subsection \<open>The loop\<close>

text \<open>
  The state the cell works on: the list \<^verbatim>\<open>Ss\<close> of results, the problems handed to
  the solver so far, and the budgets of the lines
  \<^verbatim>\<open>Completed optimization parameterized by alpha = ...\<close> printed so far.
\<close>

record state =
  Ss :: "matrix list"
  solved :: "problem list"
  printed :: "real list"

text \<open>
  One pass through the body of \<^verbatim>\<open>for alpha in alphas\<close>. An exception ends the
  pass where it is raised and leaves the state as it is at that point.
\<close>

definition iteration ::
  "solver \<Rightarrow> inverse \<Rightarrow> nat \<Rightarrow> matrix \<Rightarrow> real \<Rightarrow> state \<Rightarrow> error option \<times> state" where
  "iteration solve np_inv n Y alpha st =
     (let prob = build_problem n Y alpha;
          (prob_status, S_value) = solve prob;
          st1 = st\<lparr>solved := solved st @ [prob]\<rparr>
      in if prob_status \<noteq> OPTIMAL then (Some (Exception ''CVXPY Error''), st1)
         else
           (case np_inv S_value of
              Inl e \<Rightarrow> (Some e, st1)
            | Inr R_hat \<Rightarrow>
                (let S = threshold S_value
                 in (None, st1\<lparr>Ss := Ss st1 @ [S], printed := printed st1 @ [alpha]\<rparr>))))"

fun sweep ::
  "solver \<Rightarrow> inverse \<Rightarrow> nat \<Rightarrow> matrix \<Rightarrow> real list \<Rightarrow> state \<Rightarrow> error option \<times> state" where
  "sweep solve np_inv n Y [] st = (None, st)"
| "sweep solve np_inv n Y (alpha # alphas) st =
     (case iteration solve np_inv n Y alpha st of
        (Some e, st') \<Rightarrow> (Some e, st')
      | (None, st') \<Rightarrow> sweep solve np_inv n Y alphas st')"

text \<open>The whole cell: \<^verbatim>\<open>Ss = []\<close>, then the loop.\<close>

definition run ::
  "solver \<Rightarrow> inverse \<Rightarrow> nat \<Rightarrow> matrix \<Rightarrow> real list \<Rightarrow> error option \<times> state" where
  "run solve np_inv n Y alphas =
     sweep solve np_inv n Y alphas \<lparr>Ss = [], solved = [], printed = []\<rparr>"

subsection \<open>Notions the properties are stated with\<close>

text \<open>The raw solution and the status the solver gives for a budget, the estimate made of
  it, and the budgets whose pass ends without an exception: the solve is optimal and the
  inverse returns.\<close>

definition raw :: "solver \<Rightarrow> nat \<Rightarrow> matrix \<Rightarrow> real \<Rightarrow> matrix" where
  "raw solve n Y alpha = snd (solve (build_problem n Y alpha))"

definition status_of :: "solver \<Rightarrow> nat \<Rightarrow> matrix \<Rightarrow> real \<Rightarrow> status" where
  "status_of solve n Y alpha = fst (solve (build_problem n Y alpha))"

definition estimate :: "solver \<Rightarrow> nat \<Rightarrow> matrix \<Rightarrow> real \<Rightarrow> matrix" where
  "estimate solve n Y alpha = threshold (raw solve n Y alpha)"

definition passes :: "solver \<Rightarrow> inverse \<Rightarrow> nat \<Rightarrow> matrix \<Rightarrow> real \<Rightarrow> bool" where
  "passes solve np_inv n Y alpha =
     (status_of solve n Y alpha = OPTIMAL \<and> returns np_inv (raw solve n Y alpha))"

text \<open>The exception, if any, that ends the pass of a budget.\<close>

definition failure :: "solver \<Rightarrow> inverse \<Rightarrow> nat \<Rightarrow> matrix \<Rightarrow> real \<Rightarrow> error option" where
  "failure solve np_inv n Y a =
     (if status_of solve n Y a \<noteq> OPTIMAL then Some (Exception ''CVXPY Error'')
      else (case np_inv (raw solve n Y a) of Inl e \<Rightarrow> Some e | Inr R \<Rightarrow> None))"




text \<open>The data the first cell hands to the loop: the dimension \<open>n\<close> and the sample
  covariance \<^verbatim>\<open>Y = np.cov(y_sample)\<close> of \<open>n\<close>-dimensional samples, an \<open>n \<times> n\<close>
  array. On operands of other shapes the modelling library refuses the product
  \<^verbatim>\<open>S*Y\<close> or the index while the objective is built; that is outside this model.\<close>

definition valid_data :: "nat \<Rightarrow> matrix \<Rightarrow> bool" where
  "valid_data n Y = (0 < n \<and> is_matrix n n Y)"

section \<open>Properties\<close>

subsection \<open>Thresholding, entrywise\<close>

lemma mask_row: "map (\<lambda>(x, b). if b then v else x) (zip row (map p row)) =
    map (\<lambda>x. if p x then v else x) row"
  by (induction row) simp_all

lemma mask_rows:
  "map (\<lambda>(row, mrow). map (\<lambda>(x, b). if b then v else x) (zip row mrow))
       (zip S (map (map p) S)) = map (map (\<lambda>x. if p x then v else x)) S"
  by (induction S) (simp_all add: mask_row)

lemma threshold_map: "threshold S = map (map threshold_entry) S"
proof -
  have "np_le (np_abs S) tol = map (map (\<lambda>x. \<bar>x\<bar> \<le> tol)) S"
    by (simp add: np_le_def np_abs_def comp_def)
  then have "threshold S = map (map (\<lambda>x. if \<bar>x\<bar> \<le> tol then 0 else x)) S"
    by (simp add: threshold_def mask_assign_def mask_rows)
  then show ?thesis
    by (simp add: tol_def threshold_entry_def [abs_def])
qed

lemma threshold_entry_idem: "threshold_entry (threshold_entry x) = threshold_entry x"
  by (simp add: threshold_entry_def)


subsection \<open>The loop, pass by pass\<close>

lemma failure_None: "(failure solve np_inv n Y a = None) = passes solve np_inv n Y a"
  by (simp add: failure_def passes_def returns_def split: sum.splits)

lemma iteration_pass:
  "passes solve np_inv n Y a \<Longrightarrow>
   iteration solve np_inv n Y a st =
     (None, \<lparr>Ss = Ss st @ [estimate solve n Y a],
             solved = solved st @ [build_problem n Y a],
             printed = printed st @ [a]\<rparr>)"
  by (cases "solve (build_problem n Y a)")
     (simp add: iteration_def passes_def status_of_def raw_def estimate_def returns_def
        Let_def split: sum.splits)

lemma iteration_fail:
  "\<not> passes solve np_inv n Y a \<Longrightarrow>
   iteration solve np_inv n Y a st =
     (failure solve np_inv n Y a,
      \<lparr>Ss = Ss st, solved = solved st @ [build_problem n Y a], printed = printed st\<rparr>)"
  by (cases "solve (build_problem n Y a)")
     (simp add: iteration_def passes_def status_of_def raw_def failure_def returns_def
        Let_def split: sum.splits)

lemma sweep_pass:
  "\<forall>a\<in>set alphas. passes solve np_inv n Y a \<Longrightarrow>
   sweep solve np_inv n Y alphas st =
     (None, \<lparr>Ss = Ss st @ map (estimate solve n Y) alphas,
             solved = solved st @ map (build_problem n Y) alphas,
             printed = printed st @ alphas\<rparr>)"
  by (induction alphas arbitrary: st) (simp_all add: iteration_pass)

lemma sweep_fail:
  assumes "\<forall>a\<in>set pre. passes solve np_inv n Y a" and "\<not> passes solve np_inv n Y a"
  shows "sweep solve np_inv n Y (pre @ a # post) st =
     (failure solve np_inv n Y a,
      \<lparr>Ss = Ss st @ map (estimate solve n Y) pre,
       solved = solved st @ map (build_problem n Y) (pre @ [a]),
       printed = printed st @ pre\<rparr>)"
proof -
  from assms(2) obtain e where e: "failure solve np_inv n Y a = Some e"
    using failure_None [of solve np_inv n Y a] by (cases "failure solve np_inv n Y a") auto
  from assms(1) show ?thesis
    by (induction pre arbitrary: st) (simp_all add: iteration_pass iteration_fail [OF assms(2)] e)
qed

text \<open>Every list of budgets either passes as a whole or splits at its first failing budget.\<close>

lemma first_failure:
  "(\<forall>a\<in>set alphas. P a) \<or>
   (\<exists>pre a post. alphas = pre @ a # post \<and> (\<forall>b\<in>set pre. P b) \<and> \<not> P a)"
proof (induction alphas)
  case Nil
  show ?case by simp
next
  case (Cons x xs)
  show ?case
  proof (cases "P x")
    case False
    then have "x # xs = [] @ x # xs \<and> (\<forall>b\<in>set []. P b) \<and> \<not> P x" by simp
    then show ?thesis by blast
  next
    case True
    from Cons.IH show ?thesis
    proof
      assume "\<forall>a\<in>set xs. P a"
      with True show ?thesis by simp
    next
      assume "\<exists>pre a post. xs = pre @ a # post \<and> (\<forall>b\<in>set pre. P b) \<and> \<not> P a"
      then obtain pre a post where "xs = pre @ a # post" "\<forall>b\<in>set pre. P b" "\<not> P a"
        by blast
      with True have "x # xs = (x # pre) @ a # post \<and> (\<forall>b\<in>set (x # pre). P b) \<and> \<not> P a"
        by simp
      then show ?thesis by blast
    qed
  qed
qed

subsection \<open>Shapes, sums and products\<close>

lemma is_matrix_nth: "is_matrix r c M \<Longrightarrow> i < r \<Longrightarrow> length (M ! i) = c"
  by (simp add: is_matrix_def list_all_length)

lemma is_matrix_ncols: "is_matrix n n M \<Longrightarrow> ncols M = n"
  by (cases M) (auto simp: is_matrix_def ncols_def)

lemma sum_list_upt: "(\<Sum>i\<leftarrow>[0..<n]. f i) = (\<Sum>i<n. (f i :: real))"
  by (simp add: interv_sum_list_conv_sum_set_nat atLeast0LessThan)

lemma matmul_shape: "is_matrix (length A) (ncols B) (matmul A B)"
  by (simp add: is_matrix_def matmul_def list_all_iff)

lemma matmul_nth:
  "i < length A \<Longrightarrow> j < ncols B \<Longrightarrow>
   matmul A B ! i ! j = (\<Sum>k<length B. A ! i ! k * B ! k ! j)"
  by (simp add: matmul_def sum_list_upt)

lemma sum_entries:
  assumes "is_matrix r c M"
  shows "sum_list (map sum_list M) = (\<Sum>i<r. \<Sum>j<c. M ! i ! j)"
proof -
  have len: "length M = r" using assms by (simp add: is_matrix_def)
  have "sum_list (map sum_list M) = (\<Sum>i<r. sum_list (M ! i))"
    using len by (simp add: sum_list_sum_nth atLeast0LessThan)
  also have "\<dots> = (\<Sum>i<r. \<Sum>j<c. M ! i ! j)"
  proof (rule sum.cong)
    fix i assume "i \<in> {..<r}"
    then have "length (M ! i) = c" using assms by (simp add: is_matrix_nth)
    then show "sum_list (M ! i) = (\<Sum>j<c. M ! i ! j)"
      by (simp add: sum_list_sum_nth atLeast0LessThan)
  qed simp
  finally show ?thesis .
qed

lemma np_abs_shape: "is_matrix r c M \<Longrightarrow> is_matrix r c (np_abs M)"
  by (simp add: is_matrix_def np_abs_def list_all_iff)

lemma np_abs_nth: "is_matrix r c M \<Longrightarrow> i < r \<Longrightarrow> j < c \<Longrightarrow> np_abs M ! i ! j = \<bar>M ! i ! j\<bar>"
  by (simp add: np_abs_def is_matrix_def list_all_length)

subsection \<open>Values of the expressions of the program\<close>

lemma sval_foldl_AddE:
  "sval ld V acc = Some a \<Longrightarrow> \<forall>x\<in>set xs. sval ld V (g x) = Some (f x) \<Longrightarrow>
   sval ld V (foldl AddE acc (map g xs)) = Some (a + sum_list (map f xs))"
  by (induction xs arbitrary: acc a) (simp_all add: add.assoc)

lemma mval_product:
  assumes "is_matrix n n V" "is_matrix n n Y"
  shows "mval V (MatMul (Var \<lparr>shape = (n, n), PSD = p\<rparr>) (Constant Y)) = Some (matmul V Y)"
proof -
  have "length V = n" "length Y = n" "ncols Y = n"
    using assms by (simp_all add: is_matrix_ncols) (simp_all add: is_matrix_def)
  then show ?thesis using assms by simp
qed

lemma sval_diag_sum:
  assumes V: "is_matrix n n V" and Y: "is_matrix n n Y"
  shows "sval ld V (diag_sum n (Var \<lparr>shape = (n, n), PSD = p\<rparr>) Y) = Some (tr (matmul V Y))"
proof -
  let ?P = "MatMul (Var \<lparr>shape = (n, n), PSD = p\<rparr>) (Constant Y)"
  let ?M = "matmul V Y"
  have lenV: "length V = n" using V by (simp add: is_matrix_def)
  have shp: "is_matrix n n ?M"
    using matmul_shape [of V Y] lenV Y by (simp add: is_matrix_ncols)
  have ent: "\<forall>i\<in>set [0..<n]. sval ld V (Index ?P i i) = Some (?M ! i ! i)"
  proof
    fix i assume "i \<in> set [0..<n]"
    then have i: "i < n" by simp
    have "length ?M = n" using shp by (simp add: is_matrix_def)
    moreover have "length (?M ! i) = n" using shp i by (rule is_matrix_nth)
    ultimately show "sval ld V (Index ?P i i) = Some (?M ! i ! i)"
      using i by (simp only: sval.simps mval_product [OF V Y]) simp
  qed
  have "sval ld V (diag_sum n (Var \<lparr>shape = (n, n), PSD = p\<rparr>) Y) =
      Some (0 + sum_list (map (\<lambda>i. ?M ! i ! i) [0..<n]))"
    unfolding diag_sum_def py_sum_def by (rule sval_foldl_AddE [OF _ ent]) simp
  also have "\<dots> = Some (\<Sum>i<n. ?M ! i ! i)"
    by (simp add: sum_list_upt)
  also have "\<dots> = Some (tr ?M)"
    using shp by (simp add: tr_def is_matrix_def)
  finally show ?thesis .
qed

lemma tr_matmul:
  assumes V: "is_matrix n n V" and Y: "is_matrix n n Y"
  shows "tr (matmul V Y) = tr_prod n V Y"
proof -
  have lens: "length V = n" "length Y = n" "ncols Y = n"
    using V Y by (simp_all add: is_matrix_ncols) (simp_all add: is_matrix_def)
  have "tr (matmul V Y) = (\<Sum>i<n. matmul V Y ! i ! i)"
    using lens by (simp add: tr_def matmul_def)
  also have "\<dots> = (\<Sum>i<n. \<Sum>j<n. V ! i ! j * Y ! j ! i)"
    using lens by (intro sum.cong refl) (simp add: matmul_nth)
  finally show ?thesis by (simp add: tr_prod_def)
qed

lemma sval_norm1:
  assumes V: "is_matrix n n V"
  shows "sval ld V (SumE (AbsE (Var \<lparr>shape = (n, n), PSD = p\<rparr>))) = Some (norm1 n V)"
proof -
  have "sum_list (map sum_list (np_abs V)) = (\<Sum>i<n. \<Sum>j<n. np_abs V ! i ! j)"
    by (rule sum_entries [OF np_abs_shape [OF V]])
  also have "\<dots> = norm1 n V"
    unfolding norm1_def using V by (intro sum.cong refl) (simp add: np_abs_nth)
  finally show ?thesis using V by simp
qed


lemma svars_foldl_AddE:
  "svars (foldl AddE acc (map g xs)) = svars acc \<union> (\<Union>x\<in>set xs. svars (g x))"
  by (induction xs arbitrary: acc) auto

lemma svars_diag_sum: "svars (diag_sum n (Var v) Y) \<subseteq> {v}"
  by (auto simp: diag_sum_def py_sum_def svars_foldl_AddE)

lemma variables_build_problem:
  "variables (build_problem n Y alpha) = {\<lparr>shape = (n, n), PSD = True\<rparr>}"
  using svars_diag_sum [of n "\<lparr>shape = (n, n), PSD = True\<rparr>" Y]
  by (auto simp: variables_def build_problem_def Let_def)

subsection \<open>Facts for concrete runs\<close>

lemma upt_2: "[0..<2] = [0, Suc 0]"
  by (simp add: numeral_2_eq_2)

lemma lessThan_2: "{..<2::nat} = {0, Suc 0}"
  by (auto simp: numeral_2_eq_2)

lemma det_1x1: "det [[x]] = x"
  by simp

lemma det_2x2: "det [[a, b], [c, d]] = a * d - b * c"
  by (simp add: upt_2 remove_nth_def)

lemma square_2x2: "square [[a, b], [c, d]]"
  by (simp add: square_def is_matrix_def)

lemma valid_data_1: "valid_data 1 [[1]]"
  by (simp add: valid_data_def is_matrix_def)


text \<open>Rounding, evaluated: a real between \<open>2\<^sup>k\<close> and \<open>2\<^sup>k\<^sup>+\<^sup>1\<close> is rounded to a multiple
  of \<open>2\<^sup>k\<^sup>-\<^sup>5\<^sup>2\<close>.\<close>

lemma fl_0: "fl 0 = 0"
  by (simp add: fl_def)

lemma fl_eval:
  assumes "2 powi k \<le> \<bar>x\<bar>" and "\<bar>x\<bar> < 2 powi (k + 1)"
  shows "fl x = of_int (round_even (x / 2 powi (k - 52))) * 2 powi (k - 52)"
proof -
  have pos: "0 < \<bar>x\<bar>"
    using assms(1) by (smt (verit) zero_less_power_int)
  have a: "(2::real) powr (of_int k) = 2 powi k"
    by (rule powr_real_of_int') simp_all
  have b: "(2::real) powr (of_int k + 1) = 2 powi (k + 1)"
    using powr_real_of_int' [of 2 "k + 1"] by simp
  from assms have "2 powr (of_int k) \<le> \<bar>x\<bar> \<and> \<bar>x\<bar> < 2 powr (of_int k + 1)"
    unfolding a b by simp
  then have "\<lfloor>log 2 \<bar>x\<bar>\<rfloor> = k"
    using floor_log_eq_powr_iff [of "\<bar>x\<bar>" 2 k] pos by simp
  moreover have "x \<noteq> 0" using pos by simp
  ultimately show ?thesis by (simp add: fl_def Let_def)
qed










lemma fl_fifth: "fl (1 / 5) = 3602879701896397 / 2 ^ 54"
  using fl_eval [of "- 3" "1 / 5"] by (simp add: round_even_def power_int_minus_divide)

lemma fl_double_fifth: "fl (3602879701896397 / 2 ^ 54) = 3602879701896397 / 2 ^ 54"
  using fl_eval [of "- 3" "3602879701896397 / 2 ^ 54"]
  by (simp add: round_even_def power_int_minus_divide)

lemma fl_81_r: "fl (1 / 81) = 222399981598543 / 2 ^ 54"
  using fl_eval [of "- 7" "1 / 81"] by (simp add: round_even_def power_int_minus_divide)

lemma fl_81_l: "fl (- 63 * (222399981598543 / 2 ^ 54)) = - 875699927544263 / 2 ^ 50"
  using fl_eval [of "- 1" "- 63 * (222399981598543 / 2 ^ 54)"]
  by (simp add: round_even_def power_int_minus_divide)

lemma fl_81_p: "fl (- 875699927544263 / 2 ^ 50 * - 63) = 6896136929411071 / 2 ^ 47"
  using fl_eval [of 5 "- 875699927544263 / 2 ^ 50 * - 63"]
  by (simp add: round_even_def power_int_minus_divide)

lemma fl_81_u: "fl (49 - 6896136929411071 / 2 ^ 47) = 1 / 2 ^ 47"
  using fl_eval [of "- 47" "49 - 6896136929411071 / 2 ^ 47"]
  by (simp add: round_even_def power_int_minus_divide)

text \<open>The factorisation of \<open>1 \<times> 1\<close> and \<open>2 \<times> 2\<close> arrays.\<close>

lemma lu_zero_pivot_1x1: "lu_zero_pivot [[x]] = (x = 0)"
  by (simp add: swap_rows_def)

lemma lu_zero_pivot_2x2:
  assumes "\<bar>c\<bar> \<le> \<bar>a\<bar>" and "a \<noteq> 0"
  shows "lu_zero_pivot [[a, b], [c, d]] = (fl (d - fl (fl (c * fl (1 / a)) * b)) = 0)"
  using assms
  by (subst lu_zero_pivot.simps) (simp add: swap_rows_def eliminate_def lu_zero_pivot_1x1 Let_def)

lemma returns_np_linalg_inv: "returns np_linalg_inv M = (square M \<and> \<not> lu_zero_pivot M)"
  by (simp add: returns_def np_linalg_inv_def del: lu_zero_pivot.simps)

lemma returns_1x1: "returns np_linalg_inv [[x]] = (x \<noteq> 0)"
  by (simp add: returns_np_linalg_inv lu_zero_pivot_1x1 square_def is_matrix_def
      del: lu_zero_pivot.simps)

text \<open>The singular \<open>[[81, -63], [-63, 49]]\<close>: the multiplier \<open>-63 * fl (1 / 81)\<close> is
  rounded, and the last pivot comes out as \<open>2\<^sup>-\<^sup>4\<^sup>7\<close>, not as zero.\<close>

lemma lu_81: "\<not> lu_zero_pivot [[81, - 63], [- 63, 49]]"
proof -
  have "lu_zero_pivot [[81, - 63], [- 63, 49]] =
      (fl (49 - fl (fl (- 63 * fl (1 / 81)) * - 63)) = 0)"
    by (rule lu_zero_pivot_2x2) simp_all
  also have "\<dots> = (1 / 2 ^ 47 = (0::real))"
    by (simp only: fl_81_r fl_81_l fl_81_p fl_81_u)
  finally show ?thesis by simp
qed

text \<open>The invertible \<open>[[5, 1], [1, d]]\<close>, where \<open>d = 3602879701896397 / 2\<^sup>5\<^sup>4\<close> is the
  double \<^verbatim>\<open>0.2\<close>: the multiplier is \<open>fl (1 / 5) = d\<close>, and the last pivot is
  \<open>d - d = 0\<close>.\<close>

lemma lu_5: "lu_zero_pivot [[5, 1], [1, 3602879701896397 / 2 ^ 54]]"
proof -
  have "lu_zero_pivot [[5, 1], [1, 3602879701896397 / 2 ^ 54]] =
      (fl (3602879701896397 / 2 ^ 54 - fl (fl (1 * fl (1 / 5)) * 1)) = 0)"
    by (rule lu_zero_pivot_2x2) simp_all
  also have "\<dots> = (fl (3602879701896397 / 2 ^ 54 - 3602879701896397 / 2 ^ 54) = 0)"
    by (simp only: fl_fifth fl_double_fifth mult_1 mult_1_right)
  finally show ?thesis by (simp add: fl_0)
qed





text \<open>What thresholding makes of them: \<open>2\<^sup>-\<^sup>1\<^sup>4\<close> is below the tolerance, \<open>2\<^sup>-\<^sup>1\<^sup>3\<close>
  above it.\<close>

lemma threshold_1: "threshold [[1]] = [[1]]"
  by (simp add: threshold_map threshold_entry_def)




text \<open>The solvers of the concrete runs.\<close>

lemma bound_of_build_problem: "bound_of (build_problem n Y a) = a"
  by (simp add: build_problem_def bound_of_def Let_def)

lemma toy_raw: "0 < a \<Longrightarrow> raw toy_solver n Y a = [[min a 1]]"
  by (simp add: raw_def toy_solver_def bound_of_build_problem Let_def)

lemma toy_pass: "0 < a \<Longrightarrow> passes toy_solver np_linalg_inv n Y a"
  by (simp add: passes_def toy_raw returns_1x1)
     (simp add: status_of_def toy_solver_def bound_of_build_problem Let_def)

lemma toy_fail: "a \<le> 0 \<Longrightarrow> status_of toy_solver n Y a = INFEASIBLE"
  by (simp add: status_of_def toy_solver_def bound_of_build_problem Let_def)

lemma const_status: "status_of (const_solver s M) n Y a = s"
  by (simp add: status_of_def const_solver_def)

lemma const_raw: "raw (const_solver s M) n Y a = M"
  by (simp add: raw_def const_solver_def)



subsection \<open>The program that is built\<close>

text \<open>
  C1. For every \<open>n \<times> n\<close> sample covariance \<open>Y\<close> and every budget \<open>\<alpha>\<close>, the program that
  is built has exactly one variable, of shape \<open>n \<times> n\<close> and constrained to the
  positive-semidefinite cone; its objective is to be maximised and has, at every
  \<open>n \<times> n\<close> value \<open>V\<close> of the variable, the value \<open>log det V - tr (V Y)\<close>; and it has a
  single constraint, which holds at \<open>V\<close> exactly when \<open>\<Sum>\<^sub>i\<^sub>j |V\<^sub>i\<^sub>j| \<le> \<alpha>\<close>.
\<close>

theorem build_problem_program:
  assumes "is_matrix n n V" and "is_matrix n n Y"
  shows "variables (build_problem n Y alpha) = {\<lparr>shape = (n, n), PSD = True\<rparr>} \<and>
         (\<exists>e. objective (build_problem n Y alpha) = Maximize e \<and>
              sval ld V e = Some (ld V - tr (matmul V Y))) \<and>
         (\<exists>c. constraints (build_problem n Y alpha) = [c] \<and>
              holds ld V c = (norm1 n V \<le> alpha))"
proof (intro conjI)
  show "variables (build_problem n Y alpha) = {\<lparr>shape = (n, n), PSD = True\<rparr>}"
    by (rule variables_build_problem)
next
  let ?S = "Var \<lparr>shape = (n, n), PSD = True\<rparr>"
  have "sval ld V (SubE (LogDet ?S) (diag_sum n ?S Y)) = Some (ld V - tr (matmul V Y))"
    using assms(1) by (simp add: sval_diag_sum [OF assms])
  then show "\<exists>e. objective (build_problem n Y alpha) = Maximize e \<and>
      sval ld V e = Some (ld V - tr (matmul V Y))"
    by (simp add: build_problem_def Let_def)
next
  let ?S = "Var \<lparr>shape = (n, n), PSD = True\<rparr>"
  have e: "sval ld V (SumE (AbsE ?S)) = Some (norm1 n V)"
    by (rule sval_norm1 [OF assms(1)])
  have "holds ld V (Le (SumE (AbsE ?S)) (Num alpha)) = (norm1 n V \<le> alpha)"
    unfolding holds.simps e by simp
  then show "\<exists>c. constraints (build_problem n Y alpha) = [c] \<and>
      holds ld V c = (norm1 n V \<le> alpha)"
    by (simp add: build_problem_def Let_def)
qed

text \<open>At \<open>n = 2\<close>, \<open>V = [[2, 1], [1, 3]]\<close>, the identity for \<open>Y\<close> and the budget 10: the
  objective is \<open>ln 5 - 5\<close> and the constraint \<open>7 \<le> 10\<close> holds.\<close>

theorem build_problem_program_witness:
  "is_matrix 2 2 [[2, 1], [1, 3 :: real]] \<and> is_matrix 2 2 [[1, 0], [0, 1 :: real]] \<and>
   variables (build_problem 2 [[1, 0], [0, 1]] 10) = {\<lparr>shape = (2, 2), PSD = True\<rparr>} \<and>
   (\<exists>e. objective (build_problem 2 [[1, 0], [0, 1]] 10) = Maximize e \<and>
        sval (\<lambda>M. ln (det M)) [[2, 1], [1, 3]] e = Some (ln 5 - 5)) \<and>
   (\<exists>c. constraints (build_problem 2 [[1, 0], [0, 1]] 10) = [c] \<and>
        holds (\<lambda>M. ln (det M)) [[2, 1], [1, 3]] c)"
proof -
  have h1: "is_matrix 2 2 [[2, 1], [1, 3 :: real]]" by (simp add: is_matrix_def)
  have h2: "is_matrix 2 2 [[1, 0], [0, 1 :: real]]" by (simp add: is_matrix_def)
  have d: "det [[2, 1], [1, 3]] = 5"
    by (simp add: det_2x2 del: det.simps)
  have t: "tr (matmul [[2, 1], [1, 3]] [[1, 0], [0, 1]]) = 5"
    by (simp add: tr_def matmul_def ncols_def upt_2 lessThan_2)
  have m: "norm1 2 [[2, 1], [1, 3]] = 7"
    by (simp add: norm1_def lessThan_2)
  from build_problem_program [OF h1 h2, of 10 "\<lambda>M. ln (det M)"] h1 h2 show ?thesis
    by (simp add: d t m del: det.simps)
qed

text \<open>
  C9. For every pair of \<open>n \<times> n\<close> matrices \<open>V\<close> (a value of the variable) and \<open>Y\<close>, the
  trace term as it is written, the sum of the entries \<^verbatim>\<open>(S*Y)[i, i]\<close> for \<open>i\<close> from 0
  to \<open>n - 1\<close> added up from 0, has the value \<open>tr (V Y) = \<Sum>\<^sub>i \<Sum>\<^sub>j V\<^sub>i\<^sub>j Y\<^sub>j\<^sub>i\<close>, so that
  the objective as it is written has the value \<open>log det V - tr (V Y)\<close>.
\<close>

theorem trace_term:
  assumes "is_matrix n n V" and "is_matrix n n Y"
  shows "sval ld V (diag_sum n (Var \<lparr>shape = (n, n), PSD = True\<rparr>) Y) = Some (tr (matmul V Y)) \<and>
         tr (matmul V Y) = tr_prod n V Y \<and>
         objective (build_problem n Y alpha) =
           Maximize (SubE (LogDet (Var \<lparr>shape = (n, n), PSD = True\<rparr>))
                          (diag_sum n (Var \<lparr>shape = (n, n), PSD = True\<rparr>) Y)) \<and>
         sval ld V (SubE (LogDet (Var \<lparr>shape = (n, n), PSD = True\<rparr>))
                         (diag_sum n (Var \<lparr>shape = (n, n), PSD = True\<rparr>) Y)) =
           Some (ld V - tr_prod n V Y)"
proof (intro conjI)
  show "sval ld V (diag_sum n (Var \<lparr>shape = (n, n), PSD = True\<rparr>) Y) = Some (tr (matmul V Y))"
    by (rule sval_diag_sum [OF assms])
  show "tr (matmul V Y) = tr_prod n V Y"
    by (rule tr_matmul [OF assms])
  show "objective (build_problem n Y alpha) =
      Maximize (SubE (LogDet (Var \<lparr>shape = (n, n), PSD = True\<rparr>))
                     (diag_sum n (Var \<lparr>shape = (n, n), PSD = True\<rparr>) Y))"
    by (simp add: build_problem_def Let_def)
  show "sval ld V (SubE (LogDet (Var \<lparr>shape = (n, n), PSD = True\<rparr>))
                        (diag_sum n (Var \<lparr>shape = (n, n), PSD = True\<rparr>) Y)) =
      Some (ld V - tr_prod n V Y)"
    using assms(1) by (simp add: sval_diag_sum [OF assms] tr_matmul [OF assms])
qed

text \<open>At \<open>V = [[2, 1], [1, 3]]\<close> and \<open>Y = [[4, 5], [6, 7]]\<close> the trace term is
  \<open>(2 * 4 + 1 * 6) + (1 * 5 + 3 * 7) = 40\<close>.\<close>

theorem trace_term_witness:
  "is_matrix 2 2 [[2, 1], [1, 3 :: real]] \<and> is_matrix 2 2 [[4, 5], [6, 7 :: real]] \<and>
   sval (\<lambda>M. 0) [[2, 1], [1, 3]] (diag_sum 2 (Var \<lparr>shape = (2, 2), PSD = True\<rparr>) [[4, 5], [6, 7]])
     = Some 40 \<and>
   tr (matmul [[2, 1], [1, 3]] [[4, 5], [6, 7]]) = 40"
proof -
  have h1: "is_matrix 2 2 [[2, 1], [1, 3 :: real]]" by (simp add: is_matrix_def)
  have h2: "is_matrix 2 2 [[4, 5], [6, 7 :: real]]" by (simp add: is_matrix_def)
  have "tr_prod 2 [[2, 1], [1, 3]] [[4, 5], [6, 7]] = 40"
    by (simp add: tr_prod_def lessThan_2)
  with trace_term [OF h1 h2, of "\<lambda>M. 0" 0] h1 h2 show ?thesis
    by simp
qed

subsection \<open>Thresholding\<close>



text \<open>
  An entry equal to the double \<^verbatim>\<open>1e-4\<close> has a magnitude above \<open>10\<^sup>-\<^sup>4\<close>, and
  thresholding sets it to 0.
\<close>

theorem threshold_boundary:
  "1 / 10000 < \<bar>[[7378697629483821 / 2 ^ 66 :: real]] ! 0 ! 0\<bar> \<and>
   threshold [[7378697629483821 / 2 ^ 66]] ! 0 ! 0 = 0 \<and>
   threshold [[7378697629483821 / 2 ^ 66]] ! 0 ! 0 \<noteq> [[7378697629483821 / 2 ^ 66]] ! 0 ! 0"
  by (simp add: threshold_map threshold_entry_def)

text \<open>
  C2 (amended). Thresholding keeps the shape of the raw solution, maps every entry whose
  magnitude is at most the double \<^verbatim>\<open>1e-4\<close>, that is \<open>7378697629483821 / 2\<^sup>6\<^sup>6\<close>, to 0,
  and leaves every entry whose magnitude is above that double as it is. In particular
  every entry of magnitude at most \<open>10\<^sup>-\<^sup>4\<close> becomes 0.
\<close>

theorem threshold_entries:
  assumes "i < length S" and "j < length (S ! i)"
  shows "length (threshold S) = length S \<and> length (threshold S ! i) = length (S ! i) \<and>
         (\<bar>S ! i ! j\<bar> \<le> 7378697629483821 / 2 ^ 66 \<longrightarrow> threshold S ! i ! j = 0) \<and>
         (7378697629483821 / 2 ^ 66 < \<bar>S ! i ! j\<bar> \<longrightarrow> threshold S ! i ! j = S ! i ! j) \<and>
         (\<bar>S ! i ! j\<bar> \<le> 1 / 10000 \<longrightarrow> threshold S ! i ! j = 0)"
  using assms by (simp add: threshold_map threshold_entry_def)

text \<open>In \<open>[[2, 2\<^sup>-\<^sup>1\<^sup>4], [-7378697629483821 / 2\<^sup>6\<^sup>6, 2\<^sup>-\<^sup>1\<^sup>3]]\<close> the entry at \<open>(0, 1)\<close> becomes
  0, as does the entry at \<open>(1, 0)\<close>, which lies on the tolerance; the entries at
  \<open>(0, 0)\<close> and \<open>(1, 1)\<close> stay.\<close>

theorem threshold_entries_witness:
  "(0::nat) < length [[2, 1 / 2 ^ 14], [- 7378697629483821 / 2 ^ 66, 1 / 2 ^ 13 :: real]] \<and>
   (1::nat) < length ([[2, 1 / 2 ^ 14], [- 7378697629483821 / 2 ^ 66, 1 / 2 ^ 13 :: real]] ! 0) \<and>
   \<bar>[[2, 1 / 2 ^ 14], [- 7378697629483821 / 2 ^ 66, 1 / 2 ^ 13 :: real]] ! 0 ! 1\<bar> \<le> 1 / 10000 \<and>
   threshold [[2, 1 / 2 ^ 14], [- 7378697629483821 / 2 ^ 66, 1 / 2 ^ 13]] ! 0 ! 1 = 0 \<and>
   \<bar>[[2, 1 / 2 ^ 14], [- 7378697629483821 / 2 ^ 66, 1 / 2 ^ 13 :: real]] ! 1 ! 0\<bar>
     \<le> 7378697629483821 / 2 ^ 66 \<and>
   threshold [[2, 1 / 2 ^ 14], [- 7378697629483821 / 2 ^ 66, 1 / 2 ^ 13]] ! 1 ! 0 = 0 \<and>
   7378697629483821 / 2 ^ 66
     < \<bar>[[2, 1 / 2 ^ 14], [- 7378697629483821 / 2 ^ 66, 1 / 2 ^ 13 :: real]] ! 1 ! 1\<bar> \<and>
   threshold [[2, 1 / 2 ^ 14], [- 7378697629483821 / 2 ^ 66, 1 / 2 ^ 13]] ! 1 ! 1 = 1 / 2 ^ 13 \<and>
   threshold [[2, 1 / 2 ^ 14], [- 7378697629483821 / 2 ^ 66, 1 / 2 ^ 13]] ! 0 ! 0 = 2"
  using
    threshold_entries [of 0 "[[2, 1 / 2 ^ 14], [- 7378697629483821 / 2 ^ 66, 1 / 2 ^ 13]]" 1]
    threshold_entries [of 1 "[[2, 1 / 2 ^ 14], [- 7378697629483821 / 2 ^ 66, 1 / 2 ^ 13]]" 0]
    threshold_entries [of 1 "[[2, 1 / 2 ^ 14], [- 7378697629483821 / 2 ^ 66, 1 / 2 ^ 13]]" 1]
    threshold_entries [of 0 "[[2, 1 / 2 ^ 14], [- 7378697629483821 / 2 ^ 66, 1 / 2 ^ 13]]" 0]
  by simp

text \<open>
  C5. Thresholding is idempotent: on every real matrix, thresholding twice gives the
  same matrix as thresholding once.
\<close>

theorem threshold_idempotent: "threshold (threshold M) = threshold M"
  by (simp add: threshold_map comp_def threshold_entry_idem)

subsection \<open>Counting zeros\<close>






subsection \<open>The results of a run\<close>


lemma solved_run:
  "solved (snd (run solve np_inv n Y alphas)) = map (build_problem n Y) alphas \<or>
   (\<exists>pre a post. alphas = pre @ a # post \<and>
      solved (snd (run solve np_inv n Y alphas)) = map (build_problem n Y) (pre @ [a]))"
proof -
  from first_failure [of alphas "passes solve np_inv n Y"] show ?thesis
  proof
    assume "\<forall>a\<in>set alphas. passes solve np_inv n Y a"
    then show ?thesis by (simp add: run_def sweep_pass)
  next
    assume "\<exists>pre a post. alphas = pre @ a # post \<and> (\<forall>b\<in>set pre. passes solve np_inv n Y b)
        \<and> \<not> passes solve np_inv n Y a"
    then obtain pre a post where *: "alphas = pre @ a # post"
      "\<forall>b\<in>set pre. passes solve np_inv n Y b" "\<not> passes solve np_inv n Y a" by blast
    then have "solved (snd (run solve np_inv n Y alphas)) = map (build_problem n Y) (pre @ [a])"
      by (simp add: run_def sweep_fail)
    with * show ?thesis by blast
  qed
qed

lemma hd_prefix: "alpha # alphas = pre @ a # post \<Longrightarrow> hd (map f (pre @ [a])) = f alpha"
  by (cases pre) simp_all

lemma run_pass:
  "\<forall>a\<in>set alphas. passes solve np_inv n Y a \<Longrightarrow>
   run solve np_inv n Y alphas =
     (None, \<lparr>Ss = map (estimate solve n Y) alphas,
             solved = map (build_problem n Y) alphas,
             printed = alphas\<rparr>)"
  by (simp add: run_def sweep_pass)

lemma run_fail:
  "\<forall>b\<in>set pre. passes solve np_inv n Y b \<Longrightarrow> \<not> passes solve np_inv n Y a \<Longrightarrow>
   run solve np_inv n Y (pre @ a # post) =
     (failure solve np_inv n Y a,
      \<lparr>Ss = map (estimate solve n Y) pre,
       solved = map (build_problem n Y) (pre @ [a]),
       printed = pre\<rparr>)"
  by (simp add: run_def sweep_fail)

subsection \<open>Symmetry\<close>




subsection \<open>The number of zeros over the budgets\<close>




subsection \<open>Failing solves\<close>

text \<open>
  The exception raised for a solve that is not optimal is the same value whatever the
  budget and whatever the status: for the budget 0 found infeasible and for the budget
  10 on which the solver reports an error.
\<close>

theorem failure_error_carries_nothing:
  "fst (run toy_solver np_linalg_inv 1 [[1]] [0]) = Some (Exception ''CVXPY Error'') \<and>
   status_of toy_solver 1 [[1]] 0 = INFEASIBLE \<and>
   fst (run (const_solver SOLVER_ERROR []) np_linalg_inv 1 [[1]] [10]) =
     Some (Exception ''CVXPY Error'') \<and>
   status_of (const_solver SOLVER_ERROR []) 1 [[1]] 10 = SOLVER_ERROR"
  by (simp add: run_def iteration_def toy_solver_def const_solver_def status_of_def
      build_problem_def bound_of_def Let_def)

text \<open>
  C3 (amended). If the solver returns a status other than optimal for a budget, and the
  passes of the budgets before it went through, the run ends at that budget with the
  exception \<^verbatim>\<open>Exception('CVXPY Error')\<close>, which carries neither the budget nor the
  status; the problems handed to the solver are those of the budgets up to and including
  the failing one, so no later budget is solved.
\<close>

theorem failure_aborts:
  assumes "valid_data n Y"
    and "\<forall>b\<in>set pre. passes solve np_inv n Y b"
    and "status_of solve n Y a \<noteq> OPTIMAL"
  shows "fst (run solve np_inv n Y (pre @ a # post)) = Some (Exception ''CVXPY Error'') \<and>
         solved (snd (run solve np_inv n Y (pre @ a # post))) =
           map (build_problem n Y) (pre @ [a])"
proof -
  from assms(3) have "\<not> passes solve np_inv n Y a" by (simp add: passes_def)
  from run_fail [OF assms(2) this] assms(3) show ?thesis
    by (simp add: failure_def)
qed

text \<open>The budgets 10, 0, 2 on the \<open>1 \<times> 1\<close> data: the run ends at the budget 0 and the
  budget 2 is never solved.\<close>

theorem failure_aborts_witness:
  "valid_data 1 [[1]] \<and> passes toy_solver np_linalg_inv 1 [[1]] 10 \<and>
   status_of toy_solver 1 [[1]] 0 \<noteq> OPTIMAL \<and>
   fst (run toy_solver np_linalg_inv 1 [[1]] [10, 0, 2]) = Some (Exception ''CVXPY Error'') \<and>
   solved (snd (run toy_solver np_linalg_inv 1 [[1]] [10, 0, 2])) =
     [build_problem 1 [[1]] 10, build_problem 1 [[1]] 0]"
proof -
  have h2: "\<forall>b\<in>set [10]. passes toy_solver np_linalg_inv 1 [[1]] b" by (simp add: toy_pass)
  have h3: "status_of toy_solver 1 [[1]] 0 \<noteq> OPTIMAL" by (simp add: toy_fail)
  from failure_aborts [OF valid_data_1 h2 h3, of "[2]"] valid_data_1 h2 h3 show ?thesis
    by simp
qed

subsection \<open>Budgets that are not positive\<close>

text \<open>
  The budget 0 is handed to the solver like any other: the problem with the bound 0 is
  built and solved, and the run ends with the exception of a solve that is not optimal.
\<close>

theorem nonpositive_budget_solved:
  "run toy_solver np_linalg_inv 1 [[1]] [0] =
     (Some (Exception ''CVXPY Error''),
      \<lparr>Ss = [], solved = [build_problem 1 [[1]] 0], printed = []\<rparr>)"
  by (simp add: run_def iteration_def toy_solver_def build_problem_def bound_of_def Let_def)

text \<open>
  C4 (amended). The loop checks nothing about a budget: for \<open>n \<times> n\<close> data and every first
  budget \<open>\<alpha>\<close>, positive or not, the problem with the bound \<open>\<alpha>\<close> is built and is the first
  one handed to the solver; if the solver does not find it optimal, the run ends there
  with \<^verbatim>\<open>Exception('CVXPY Error')\<close>, with no estimate stored.
\<close>

theorem no_validation:
  assumes "valid_data n Y"
  shows "solved (snd (run solve np_inv n Y (alpha # alphas))) \<noteq> [] \<and>
         hd (solved (snd (run solve np_inv n Y (alpha # alphas)))) = build_problem n Y alpha \<and>
         (status_of solve n Y alpha \<noteq> OPTIMAL \<longrightarrow>
            run solve np_inv n Y (alpha # alphas) =
              (Some (Exception ''CVXPY Error''),
               \<lparr>Ss = [], solved = [build_problem n Y alpha], printed = []\<rparr>))"
proof -
  let ?st = "snd (run solve np_inv n Y (alpha # alphas))"
  have first: "solved ?st \<noteq> [] \<and> hd (solved ?st) = build_problem n Y alpha"
    using solved_run [of solve np_inv n Y "alpha # alphas"]
  proof
    assume "solved ?st = map (build_problem n Y) (alpha # alphas)"
    then show ?thesis by simp
  next
    assume "\<exists>pre a post. alpha # alphas = pre @ a # post \<and>
        solved ?st = map (build_problem n Y) (pre @ [a])"
    then obtain pre a post where eq: "alpha # alphas = pre @ a # post"
      and sol: "solved ?st = map (build_problem n Y) (pre @ [a])" by blast
    from hd_prefix [OF eq]
    have "hd (map (build_problem n Y) (pre @ [a])) = build_problem n Y alpha" .
    with sol show ?thesis by simp
  qed
  have "run solve np_inv n Y (alpha # alphas) =
      (Some (Exception ''CVXPY Error''),
       \<lparr>Ss = [], solved = [build_problem n Y alpha], printed = []\<rparr>)"
    if "status_of solve n Y alpha \<noteq> OPTIMAL"
  proof -
    from that have "\<not> passes solve np_inv n Y alpha" by (simp add: passes_def)
    from run_fail [of "[]" solve np_inv n Y alpha alphas, OF _ this] that
    show ?thesis by (simp add: failure_def)
  qed
  with first show ?thesis by blast
qed

text \<open>The budgets 0, 2 on the \<open>1 \<times> 1\<close> data.\<close>

theorem no_validation_witness:
  "valid_data 1 [[1]] \<and> status_of toy_solver 1 [[1]] 0 \<noteq> OPTIMAL \<and>
   solved (snd (run toy_solver np_linalg_inv 1 [[1]] [0, 2])) \<noteq> [] \<and>
   hd (solved (snd (run toy_solver np_linalg_inv 1 [[1]] [0, 2]))) = build_problem 1 [[1]] 0 \<and>
   run toy_solver np_linalg_inv 1 [[1]] [0, 2] =
     (Some (Exception ''CVXPY Error''),
      \<lparr>Ss = [], solved = [build_problem 1 [[1]] 0], printed = []\<rparr>)"
proof -
  have h2: "status_of toy_solver 1 [[1]] 0 \<noteq> OPTIMAL" by (simp add: toy_fail)
  from no_validation [OF valid_data_1, of toy_solver np_linalg_inv 0 "[2]"] valid_data_1 h2
  show ?thesis by blast
qed

subsection \<open>The collected results\<close>

lemma singular_raise:
  "np_linalg_inv [[5, 1], [1, 3602879701896397 / 2 ^ 54]] = Inl (LinAlgError ''Singular matrix'')"
  using lu_5 square_2x2 [of 5 1 1 "3602879701896397 / 2 ^ 54"]
  by (simp add: np_linalg_inv_def del: lu_zero_pivot.simps)

lemma run_raise:
  assumes "status_of solve n Y a = OPTIMAL" and "np_inv (raw solve n Y a) = Inl e"
  shows "run solve np_inv n Y [a] =
     (Some e, \<lparr>Ss = [], solved = [build_problem n Y a], printed = []\<rparr>)"
proof -
  from assms have "\<not> passes solve np_inv n Y a" by (simp add: passes_def returns_def)
  from run_fail [of "[]" solve np_inv n Y a "[]", OF _ this] assms
  show ?thesis by (simp add: failure_def)
qed

text \<open>
  The budgets 10, 0 on the \<open>1 \<times> 1\<close> data: the run ends with the exception at the budget
  0, and \<^verbatim>\<open>Ss\<close> holds the estimate made for the budget 10. And a solver that finds
  the budget 10 optimal with \<open>[[5, 1], [1, d]]\<close>, \<open>d\<close> the double \<^verbatim>\<open>0.2\<close>: the solve
  succeeds, the inverse raises, and no estimate is stored.
\<close>

theorem partial_results_kept:
  "fst (run toy_solver np_linalg_inv 1 [[1]] [10, 0]) = Some (Exception ''CVXPY Error'') \<and>
   Ss (snd (run toy_solver np_linalg_inv 1 [[1]] [10, 0])) = [[[1]]] \<and>
   status_of (const_solver OPTIMAL [[5, 1], [1, 3602879701896397 / 2 ^ 54]]) 2
     [[1, 0], [0, 1]] 10 = OPTIMAL \<and>
   run (const_solver OPTIMAL [[5, 1], [1, 3602879701896397 / 2 ^ 54]]) np_linalg_inv 2
     [[1, 0], [0, 1]] [10] =
     (Some (LinAlgError ''Singular matrix''),
      \<lparr>Ss = [], solved = [build_problem 2 [[1, 0], [0, 1]] 10], printed = []\<rparr>)"
proof -
  have p: "\<forall>b\<in>set [10]. passes toy_solver np_linalg_inv 1 [[1]] b" by (simp add: toy_pass)
  have f: "\<not> passes toy_solver np_linalg_inv 1 [[1]] 0" by (simp add: passes_def toy_fail)
  from run_fail [OF p f, of "[]"] toy_raw [of 10 1 "[[1]]"] threshold_1
  have a: "fst (run toy_solver np_linalg_inv 1 [[1]] [10, 0]) = Some (Exception ''CVXPY Error'') \<and>
      Ss (snd (run toy_solver np_linalg_inv 1 [[1]] [10, 0])) = [[[1]]]"
    by (simp add: failure_def toy_fail estimate_def)
  let ?s = "const_solver OPTIMAL [[5, 1], [1, 3602879701896397 / 2 ^ 54]]"
  have "np_linalg_inv (raw ?s 2 [[1, 0], [0, 1]] 10) = Inl (LinAlgError ''Singular matrix'')"
    unfolding const_raw by (rule singular_raise)
  moreover have "status_of ?s 2 [[1, 0], [0, 1]] 10 = OPTIMAL" by (rule const_status)
  ultimately have "run ?s np_linalg_inv 2 [[1, 0], [0, 1]] [10] =
     (Some (LinAlgError ''Singular matrix''),
      \<lparr>Ss = [], solved = [build_problem 2 [[1, 0], [0, 1]] 10], printed = []\<rparr>)"
    by (intro run_raise)
  with a show ?thesis
    by (simp add: const_status)
qed

text \<open>
  C8 (amended). When the pass of every budget goes through (the solve is optimal and
  \<^verbatim>\<open>np.linalg.inv\<close> returns on the raw solution), the run ends without an exception
  and \<^verbatim>\<open>Ss\<close> holds exactly one estimate per budget, the thresholded raw solution of
  that budget, in the order of \<^verbatim>\<open>alphas\<close>, so that \<^verbatim>\<open>Ss[i]\<close> belongs to
  \<^verbatim>\<open>alphas[i]\<close>. When the pass of a budget fails, the run ends with the exception
  of that budget and \<^verbatim>\<open>Ss\<close> holds the estimates of the budgets before it.
\<close>

theorem results_in_order:
  assumes "valid_data n Y"
  shows "((\<forall>a\<in>set alphas. passes solve np_inv n Y a) \<longrightarrow>
            run solve np_inv n Y alphas =
              (None, \<lparr>Ss = map (\<lambda>a. threshold (raw solve n Y a)) alphas,
                      solved = map (build_problem n Y) alphas,
                      printed = alphas\<rparr>)) \<and>
         ((\<forall>b\<in>set pre. passes solve np_inv n Y b) \<and> \<not> passes solve np_inv n Y a \<longrightarrow>
            fst (run solve np_inv n Y (pre @ a # post)) = failure solve np_inv n Y a \<and>
            fst (run solve np_inv n Y (pre @ a # post)) \<noteq> None \<and>
            Ss (snd (run solve np_inv n Y (pre @ a # post))) =
              map (\<lambda>a. threshold (raw solve n Y a)) pre)"
proof (intro conjI impI)
  assume "\<forall>a\<in>set alphas. passes solve np_inv n Y a"
  from run_pass [OF this]
  show "run solve np_inv n Y alphas =
      (None, \<lparr>Ss = map (\<lambda>a. threshold (raw solve n Y a)) alphas,
              solved = map (build_problem n Y) alphas, printed = alphas\<rparr>)"
    by (simp add: estimate_def [abs_def])
next
  assume *: "(\<forall>b\<in>set pre. passes solve np_inv n Y b) \<and> \<not> passes solve np_inv n Y a"
  then have f: "run solve np_inv n Y (pre @ a # post) =
     (failure solve np_inv n Y a,
      \<lparr>Ss = map (estimate solve n Y) pre,
       solved = map (build_problem n Y) (pre @ [a]),
       printed = pre\<rparr>)"
    using run_fail [of pre solve np_inv n Y a post] by simp
  from f show "fst (run solve np_inv n Y (pre @ a # post)) = failure solve np_inv n Y a"
    by simp
  from f * show "fst (run solve np_inv n Y (pre @ a # post)) \<noteq> None"
    by (simp add: failure_None)
  from f show "Ss (snd (run solve np_inv n Y (pre @ a # post))) =
      map (\<lambda>a. threshold (raw solve n Y a)) pre"
    by (simp add: estimate_def [abs_def])
qed

text \<open>The budgets 10, 2, 1 of the notebook on the \<open>1 \<times> 1\<close> data, and the budgets
  10, 0, 1.\<close>

theorem results_in_order_witness:
  "valid_data 1 [[1]] \<and>
   passes toy_solver np_linalg_inv 1 [[1]] 10 \<and> passes toy_solver np_linalg_inv 1 [[1]] 2 \<and>
   passes toy_solver np_linalg_inv 1 [[1]] 1 \<and>
   run toy_solver np_linalg_inv 1 [[1]] [10, 2, 1] =
     (None, \<lparr>Ss = [[[1]], [[1]], [[1]]],
             solved = [build_problem 1 [[1]] 10, build_problem 1 [[1]] 2, build_problem 1 [[1]] 1],
             printed = [10, 2, 1]\<rparr>) \<and>
   \<not> passes toy_solver np_linalg_inv 1 [[1]] 0 \<and>
   fst (run toy_solver np_linalg_inv 1 [[1]] [10, 0, 1]) = Some (Exception ''CVXPY Error'') \<and>
   Ss (snd (run toy_solver np_linalg_inv 1 [[1]] [10, 0, 1])) = [[[1]]]"
proof -
  have h2: "\<forall>a\<in>set [10, 2, 1]. passes toy_solver np_linalg_inv 1 [[1]] a"
    by (simp add: toy_pass)
  have h3: "\<forall>b\<in>set [10]. passes toy_solver np_linalg_inv 1 [[1]] b" by (simp add: toy_pass)
  have h4: "\<not> passes toy_solver np_linalg_inv 1 [[1]] 0" by (simp add: passes_def toy_fail)
  have f: "failure toy_solver np_linalg_inv 1 [[1]] 0 = Some (Exception ''CVXPY Error'')"
    by (simp add: failure_def toy_fail)
  from results_in_order [OF valid_data_1, of "[10, 2, 1]" toy_solver np_linalg_inv "[10]" 0 "[1]"]
    h2 h3 h4
  have "run toy_solver np_linalg_inv 1 [[1]] [10, 2, 1] =
      (None, \<lparr>Ss = map (\<lambda>a. threshold (raw toy_solver 1 [[1]] a)) [10, 2, 1],
              solved = map (build_problem 1 [[1]]) [10, 2, 1], printed = [10, 2, 1]\<rparr>) \<and>
      fst (run toy_solver np_linalg_inv 1 [[1]] ([10] @ 0 # [1])) =
        failure toy_solver np_linalg_inv 1 [[1]] 0 \<and>
      Ss (snd (run toy_solver np_linalg_inv 1 [[1]] ([10] @ 0 # [1]))) =
        map (\<lambda>a. threshold (raw toy_solver 1 [[1]] a)) [10]"
    by blast
  with valid_data_1 h2 h4 f show ?thesis
    by (simp add: toy_raw threshold_1)
qed

subsection \<open>The inverse of the raw solution\<close>

lemma threshold_81: "threshold [[81, - 63], [- 63, 49]] = [[81, - 63], [- 63, 49]]"
  by (simp add: threshold_map threshold_entry_def)

text \<open>
  Whether the inverse raises is not whether the raw solution is invertible. On the
  singular \<open>[[81, -63], [-63, 49]]\<close> it returns, the pass goes through and an estimate
  is stored; on the invertible \<open>[[5, 1], [1, d]]\<close>, \<open>d\<close> the double \<^verbatim>\<open>0.2\<close>, it raises
  and the run ends.
\<close>

theorem inverse_not_invertibility:
  "\<not> invertible [[81, - 63], [- 63, 49]] \<and>
   run (const_solver OPTIMAL [[81, - 63], [- 63, 49]]) np_linalg_inv 2 [[1, 0], [0, 1]] [10] =
     (None, \<lparr>Ss = [[[81, - 63], [- 63, 49]]],
             solved = [build_problem 2 [[1, 0], [0, 1]] 10], printed = [10]\<rparr>) \<and>
   invertible [[5, 1], [1, 3602879701896397 / 2 ^ 54]] \<and>
   run (const_solver OPTIMAL [[5, 1], [1, 3602879701896397 / 2 ^ 54]]) np_linalg_inv 2
     [[1, 0], [0, 1]] [10] =
     (Some (LinAlgError ''Singular matrix''),
      \<lparr>Ss = [], solved = [build_problem 2 [[1, 0], [0, 1]] 10], printed = []\<rparr>)"
proof -
  let ?Y = "[[1, 0], [0, 1 :: real]]"
  let ?a = "const_solver OPTIMAL [[81, - 63], [- 63, 49]]"
  let ?b = "const_solver OPTIMAL [[5, 1], [1, 3602879701896397 / 2 ^ 54]]"
  have i1: "\<not> invertible [[81, - 63], [- 63, 49]]"
    by (simp add: invertible_def det_2x2 del: det.simps)
  have i2: "invertible [[5, 1], [1, 3602879701896397 / 2 ^ 54]]"
    by (simp add: invertible_def square_2x2 det_2x2 del: det.simps)
  have "returns np_linalg_inv [[81, - 63], [- 63, 49]]"
    using lu_81 by (simp add: returns_np_linalg_inv square_2x2 del: lu_zero_pivot.simps)
  then have "passes ?a np_linalg_inv 2 ?Y 10"
    unfolding passes_def const_status const_raw by simp
  then have "\<forall>a\<in>set [10]. passes ?a np_linalg_inv 2 ?Y a" by simp
  from run_pass [OF this] threshold_81
  have r1: "run ?a np_linalg_inv 2 ?Y [10] =
     (None, \<lparr>Ss = [[[81, - 63], [- 63, 49]]], solved = [build_problem 2 ?Y 10], printed = [10]\<rparr>)"
    by (simp add: estimate_def const_raw)
  have "np_linalg_inv (raw ?b 2 ?Y 10) = Inl (LinAlgError ''Singular matrix'')"
    unfolding const_raw by (rule singular_raise)
  moreover have "status_of ?b 2 ?Y 10 = OPTIMAL" by (rule const_status)
  ultimately have "run ?b np_linalg_inv 2 ?Y [10] =
     (Some (LinAlgError ''Singular matrix''),
      \<lparr>Ss = [], solved = [build_problem 2 ?Y 10], printed = []\<rparr>)"
    by (intro run_raise)
  with i1 i2 r1 show ?thesis
    by simp
qed

text \<open>
  C10 (amended). After a solve found optimal and before thresholding, the loop calls
  \<^verbatim>\<open>np.linalg.inv\<close> on the raw solution, unguarded, and never uses what it returns.
  So, when every solve is optimal: the run ends without an exception exactly when
  \<^verbatim>\<open>np.linalg.inv\<close> returns on every raw solution; the estimates are then the
  thresholded raw solutions, whatever the arrays returned; and at the first raw solution
  on which it raises the run ends with that exception, before an estimate for that
  budget is stored. Whether it raises is the library's matter (a zero pivot of the
  factorisation in doubles), not exact invertibility.
\<close>

theorem inverse_unguarded:
  assumes "valid_data n Y"
    and "\<forall>a\<in>set alphas. status_of solve n Y a = OPTIMAL"
  shows "(fst (run solve np_inv n Y alphas) = None) =
           (\<forall>a\<in>set alphas. returns np_inv (raw solve n Y a)) \<and>
         ((\<forall>a\<in>set alphas. returns np_inv (raw solve n Y a)) \<longrightarrow>
            Ss (snd (run solve np_inv n Y alphas)) =
              map (\<lambda>a. threshold (raw solve n Y a)) alphas) \<and>
         (\<forall>pre a post e. alphas = pre @ a # post \<and>
            (\<forall>b\<in>set pre. returns np_inv (raw solve n Y b)) \<and>
            np_inv (raw solve n Y a) = Inl e \<longrightarrow>
            fst (run solve np_inv n Y alphas) = Some e \<and>
            Ss (snd (run solve np_inv n Y alphas)) =
              map (\<lambda>a. threshold (raw solve n Y a)) pre)"
proof -
  have p: "passes solve np_inv n Y a = returns np_inv (raw solve n Y a)"
    if "a \<in> set alphas" for a
    using assms(2) that by (simp add: passes_def)
  have good: "run solve np_inv n Y alphas =
      (None, \<lparr>Ss = map (estimate solve n Y) alphas,
              solved = map (build_problem n Y) alphas, printed = alphas\<rparr>)"
    if "\<forall>a\<in>set alphas. returns np_inv (raw solve n Y a)"
  proof -
    from that p have "\<forall>a\<in>set alphas. passes solve np_inv n Y a" by simp
    then show ?thesis by (rule run_pass)
  qed
  have bad: "fst (run solve np_inv n Y alphas) = failure solve np_inv n Y a \<and>
      failure solve np_inv n Y a \<noteq> None \<and>
      Ss (snd (run solve np_inv n Y alphas)) = map (estimate solve n Y) pre"
    if "alphas = pre @ a # post" "\<forall>b\<in>set pre. returns np_inv (raw solve n Y b)"
      "\<not> returns np_inv (raw solve n Y a)" for pre a post
  proof -
    from that p have pre: "\<forall>b\<in>set pre. passes solve np_inv n Y b"
      and a: "\<not> passes solve np_inv n Y a"
      by simp_all
    from run_fail [OF pre a, of post] that(1) a show ?thesis
      by (simp add: failure_None)
  qed
  have only: "\<forall>a\<in>set alphas. returns np_inv (raw solve n Y a)"
    if none: "fst (run solve np_inv n Y alphas) = None"
  proof (rule ccontr)
    assume "\<not> (\<forall>a\<in>set alphas. returns np_inv (raw solve n Y a))"
    with first_failure [of alphas "\<lambda>a. returns np_inv (raw solve n Y a)"]
    obtain pre a post where "alphas = pre @ a # post"
      "\<forall>b\<in>set pre. returns np_inv (raw solve n Y b)" "\<not> returns np_inv (raw solve n Y a)"
      by blast
    from bad [OF this] none show False by auto
  qed
  have c1: "(fst (run solve np_inv n Y alphas) = None) =
      (\<forall>a\<in>set alphas. returns np_inv (raw solve n Y a))"
  proof
    assume "fst (run solve np_inv n Y alphas) = None"
    then show "\<forall>a\<in>set alphas. returns np_inv (raw solve n Y a)" by (rule only)
  next
    assume "\<forall>a\<in>set alphas. returns np_inv (raw solve n Y a)"
    from good [OF this] show "fst (run solve np_inv n Y alphas) = None" by simp
  qed
  have c2: "(\<forall>a\<in>set alphas. returns np_inv (raw solve n Y a)) \<longrightarrow>
      Ss (snd (run solve np_inv n Y alphas)) = map (\<lambda>a. threshold (raw solve n Y a)) alphas"
    using good by (simp add: estimate_def [abs_def])
  have c3: "fst (run solve np_inv n Y alphas) = Some e \<and>
      Ss (snd (run solve np_inv n Y alphas)) = map (\<lambda>a. threshold (raw solve n Y a)) pre"
    if "alphas = pre @ a # post \<and> (\<forall>b\<in>set pre. returns np_inv (raw solve n Y b)) \<and>
      np_inv (raw solve n Y a) = Inl e" for pre a post e
  proof -
    from that have eq: "alphas = pre @ a # post"
      and pre: "\<forall>b\<in>set pre. returns np_inv (raw solve n Y b)"
      and e: "np_inv (raw solve n Y a) = Inl e" by simp_all
    from e have nr: "\<not> returns np_inv (raw solve n Y a)" by (simp add: returns_def)
    from eq assms(2) have "status_of solve n Y a = OPTIMAL" by simp
    with e have "failure solve np_inv n Y a = Some e" by (simp add: failure_def)
    with bad [OF eq pre nr] show ?thesis by (simp add: estimate_def [abs_def])
  qed
  from c1 c2 c3 show ?thesis by blast
qed

text \<open>A solver that reports \<open>[[0]]\<close> as optimal: the inverse raises and the run ends at
  the first budget. On the raw solutions \<open>[[1]]\<close> it goes through.\<close>

theorem inverse_unguarded_witness:
  "valid_data 1 [[1]] \<and>
   status_of (const_solver OPTIMAL [[0]]) 1 [[1]] 10 = OPTIMAL \<and>
   status_of (const_solver OPTIMAL [[0]]) 1 [[1]] 2 = OPTIMAL \<and>
   np_linalg_inv (raw (const_solver OPTIMAL [[0]]) 1 [[1]] 10) =
     Inl (LinAlgError ''Singular matrix'') \<and>
   fst (run (const_solver OPTIMAL [[0]]) np_linalg_inv 1 [[1]] [10, 2]) =
     Some (LinAlgError ''Singular matrix'') \<and>
   Ss (snd (run (const_solver OPTIMAL [[0]]) np_linalg_inv 1 [[1]] [10, 2])) = [] \<and>
   status_of toy_solver 1 [[1]] 10 = OPTIMAL \<and> status_of toy_solver 1 [[1]] 2 = OPTIMAL \<and>
   returns np_linalg_inv (raw toy_solver 1 [[1]] 10) \<and>
   returns np_linalg_inv (raw toy_solver 1 [[1]] 2) \<and>
   fst (run toy_solver np_linalg_inv 1 [[1]] [10, 2]) = None \<and>
   Ss (snd (run toy_solver np_linalg_inv 1 [[1]] [10, 2])) = [[[1]], [[1]]]"
proof -
  let ?z = "const_solver OPTIMAL [[0]]"
  have h2: "\<forall>a\<in>set [10, 2]. status_of ?z 1 [[1]] a = OPTIMAL"
    by (simp add: const_status)
  have h3: "np_linalg_inv (raw ?z 1 [[1]] 10) = Inl (LinAlgError ''Singular matrix'')"
    by (simp add: const_raw np_linalg_inv_def lu_zero_pivot_1x1 square_def is_matrix_def
        del: lu_zero_pivot.simps)
  have h4: "\<forall>a\<in>set [10, 2]. status_of toy_solver 1 [[1]] a = OPTIMAL"
    using toy_pass [of _ 1 "[[1]]"] by (simp add: passes_def)
  have h5: "\<forall>a\<in>set [10, 2]. returns np_linalg_inv (raw toy_solver 1 [[1]] a)"
    using toy_pass [of _ 1 "[[1]]"] by (simp add: passes_def)
  have e: "map (\<lambda>a. threshold (raw toy_solver 1 [[1]] a)) [10, 2] = [[[1]], [[1]]]"
    by (simp add: toy_raw threshold_1)
  have z: "[10, 2] = [] @ 10 # [2::real] \<and> (\<forall>b\<in>set []. returns np_linalg_inv (raw ?z 1 [[1]] b))"
    by simp
  from inverse_unguarded [OF valid_data_1 h2, of np_linalg_inv] h3 z
  have "fst (run ?z np_linalg_inv 1 [[1]] [10, 2]) = Some (LinAlgError ''Singular matrix'') \<and>
      Ss (snd (run ?z np_linalg_inv 1 [[1]] [10, 2])) =
        map (\<lambda>a. threshold (raw ?z 1 [[1]] a)) []"
    by blast
  moreover from inverse_unguarded [OF valid_data_1 h4, of np_linalg_inv] h5 e
  have "fst (run toy_solver np_linalg_inv 1 [[1]] [10, 2]) = None \<and>
      Ss (snd (run toy_solver np_linalg_inv 1 [[1]] [10, 2])) = [[[1]], [[1]]]"
    by simp
  ultimately show ?thesis using valid_data_1 h2 h3 h4 h5 by simp
qed


end
